theory Spec2Isabelle
  imports Complex_Main
begin

section \<open>JavaScript values\<close>

text \<open>
  The client of \<^verbatim>\<open>src/src/client.ts\<close> is modelled function by function.  Conventions:
  \<^item> a count or a duration in milliseconds that the caller configures is a \<^typ>\<open>nat\<close>,
    an instant (\<^verbatim>\<open>Date.now()\<close>, milliseconds since the epoch) is an \<^typ>\<open>int\<close>;
  \<^item> every other JavaScript number is a \<^typ>\<open>real\<close>: IEEE rounding is idealised to exact
    arithmetic;
  \<^item> an optional field is an \<^typ>\<open>'a option\<close>, \<open>None\<close> standing for \<^verbatim>\<open>undefined\<close>;
  \<^item> \<^verbatim>\<open>Math.random()\<close> is the next value of an explicit source \<open>rnd :: nat \<Rightarrow> real\<close>
    read through a cursor, with \<open>0 \<le> rnd k < 1\<close> stated where a theorem needs it;
  \<^item> \<^verbatim>\<open>Date.now()\<close> is an explicit argument \<open>now\<close>: one synchronous call reads one
    clock value;
  \<^item> a date string is represented by the instant \<^verbatim>\<open>new Date(s).getTime()\<close> it parses to,
    and an ISO timestamp by its instant.
\<close>

text \<open>\<^verbatim>\<open>x || d\<close> on an optional number and on an optional string: \<^verbatim>\<open>undefined\<close>, \<^verbatim>\<open>0\<close>
  and the empty string are falsy.\<close>

definition or_default :: "nat option \<Rightarrow> nat \<Rightarrow> nat" where
  "or_default x d = (case x of None \<Rightarrow> d | Some v \<Rightarrow> if v = 0 then d else v)"

definition or_text :: "string option \<Rightarrow> string \<Rightarrow> string" where
  "or_text x d = (case x of None \<Rightarrow> d | Some s \<Rightarrow> if s = [] then d else s)"

text \<open>Template literals render an integer in decimal.\<close>

definition digit_char :: "nat \<Rightarrow> char" where
  "digit_char n = ''0123456789'' ! (n mod 10)"

fun show_nat :: "nat \<Rightarrow> string" where
  "show_nat n = (if n < 10 then [digit_char n] else show_nat (n div 10) @ [digit_char n])"

declare show_nat.simps [simp del]

definition show_int :: "int \<Rightarrow> string" where
  "show_int i = (if i < 0 then CHR ''-'' # show_nat (nat (- i)) else show_nat (nat i))"

definition js_trunc :: "real \<Rightarrow> int" where
  "js_trunc x = (if 0 \<le> x then \<lfloor>x\<rfloor> else \<lceil>x\<rceil>)"

section \<open>Errors\<close>

text \<open>\<^verbatim>\<open>BufferAPIError\<close> of \<^verbatim>\<open>types.ts\<close> (the free-form \<^verbatim>\<open>details\<close> payload is left out).
  A \<^verbatim>\<open>catch\<close> sees either an instance of it or any other thrown value.\<close>

record BufferAPIError =
  code :: string
  message :: string
  statusCode :: "nat option"

datatype thrown = ApiError BufferAPIError | OtherError string

section \<open>Configuration and client state\<close>

record RateLimitConfig =
  rl_requests :: nat
  rl_window :: nat

record BufferSDK =
  clientId :: string
  clientSecret :: string
  redirectUri :: string
  sdk_code :: "string option"
  sdkMockMode :: bool


text \<open>The normalised configuration \<^verbatim>\<open>this.config\<close> built by \<^verbatim>\<open>initialize\<close>.\<close>

record Config =
  cfg_accessToken :: "string option"
  cfg_baseUrl :: string
  cfg_timeout :: nat
  cfg_retryAttempts :: nat
  cfg_retryDelay :: nat
  cfg_rateLimit :: RateLimitConfig
  cfg_bufferSDK :: BufferSDK

record RetryConfig =
  attempts :: nat
  delay :: nat
  backoffFactor :: nat

record RateLimitState =
  requests :: nat
  resetTime :: int

record BufferClient =
  config :: Config
  retryConfig :: RetryConfig
  rateLimitState :: RateLimitState

section \<open>Rate limiting\<close>

text \<open>\<^verbatim>\<open>checkRateLimit\<close>, lines 101-121.  The first \<^verbatim>\<open>if\<close> is \<open>resetWindow\<close>; the state it
  leaves is kept also when the check then throws.\<close>

definition resetWindow :: "RateLimitConfig \<Rightarrow> int \<Rightarrow> RateLimitState \<Rightarrow> RateLimitState" where
  "resetWindow rl now st =
     (if now > resetTime st
      then st\<lparr>requests := 0, resetTime := now + int (rl_window rl)\<rparr>
      else st)"

definition rateLimitError :: "int \<Rightarrow> BufferAPIError" where
  "rateLimitError waitTime =
     \<lparr>code = ''RATE_LIMIT_EXCEEDED'',
      message = ''Rate limit exceeded. Try again in ''
        @ show_int \<lceil>real_of_int waitTime / 1000\<rceil> @ '' seconds.'',
      statusCode = Some 429\<rparr>"

definition checkRateLimit ::
  "RateLimitConfig \<Rightarrow> int \<Rightarrow> RateLimitState \<Rightarrow> (BufferAPIError + unit) \<times> RateLimitState" where
  "checkRateLimit rl now st =
     (let st1 = resetWindow rl now st in
      if requests st1 \<ge> rl_requests rl
      then (Inl (rateLimitError (resetTime st1 - now)), st1)
      else (Inr (), st1\<lparr>requests := requests st1 + 1\<rparr>))"

text \<open>A run of checks issued at the instants of a list, on one client.\<close>

fun checkRateLimits ::
  "RateLimitConfig \<Rightarrow> int list \<Rightarrow> RateLimitState \<Rightarrow> (BufferAPIError + unit) list \<times> RateLimitState" where
  "checkRateLimits rl [] st = ([], st)"
| "checkRateLimits rl (t # ts) st =
     (case checkRateLimit rl t st of
        (r, st1) \<Rightarrow> (case checkRateLimits rl ts st1 of (rs, st2) \<Rightarrow> (r # rs, st2)))"

section \<open>Retry with backoff\<close>

definition retryableCodes :: "string list" where
  "retryableCodes = [''NETWORK_ERROR'', ''TIMEOUT'', ''HTTP_500'', ''HTTP_502'', ''HTTP_503'']"

text \<open>\<^verbatim>\<open>retryRequest\<close>, lines 153-177.  The thunk \<^verbatim>\<open>requestFn\<close> is effectful, so it is given
  as the outcome of each invocation: \<open>requestFn k\<close> is what the invocation made by attempt
  \<open>k\<close> returns or throws.  The result is the outcome, the number of invocations made and
  the delays slept, in order.  The entry point is \<open>currentAttempt = 1\<close>.\<close>

function retryRequest ::
  "RetryConfig \<Rightarrow> (nat \<Rightarrow> thrown + 'a) \<Rightarrow> nat \<Rightarrow> (thrown + 'a) \<times> nat \<times> nat list" where
  "retryRequest rc requestFn currentAttempt =
     (case requestFn currentAttempt of
        Inr v \<Rightarrow> (Inr v, 1, [])
      | Inl error \<Rightarrow>
          if currentAttempt \<ge> attempts rc then (Inl error, 1, [])
          else if (case error of
                     ApiError e \<Rightarrow> code e \<notin> set retryableCodes
                   | OtherError _ \<Rightarrow> False)
          then (Inl error, 1, [])
          else (case retryRequest rc requestFn (currentAttempt + 1) of
                  (r, n, ds) \<Rightarrow>
                    (r, n + 1, delay rc * backoffFactor rc ^ (currentAttempt - 1) # ds)))"
  by pat_completeness auto
termination
  by (relation "measure (\<lambda>(rc, requestFn, currentAttempt). attempts rc - currentAttempt)") auto

declare retryRequest.simps [simp del]

section \<open>Token exchange and initialisation\<close>






section \<open>Domain records\<close>

datatype SocialPlatform = Xcom | LinkedIn | Facebook | Instagram

text \<open>The platform as it is spelled inside template literals.\<close>

fun platform_name :: "SocialPlatform \<Rightarrow> string" where
  "platform_name Xcom = ''x''"
| "platform_name LinkedIn = ''linkedin''"
| "platform_name Facebook = ''facebook''"
| "platform_name Instagram = ''instagram''"

datatype TimeRange = R7d | R30d | R90d | R1y | Custom

datatype Period = Day | Week | Month | OtherPeriod

record BufferProfile =
  pr_id :: string
  pr_service :: SocialPlatform
  service_username :: string
  service_id :: string
  formatted_username :: string
  avatar :: string
  timezone :: string
  schedules :: "(string list \<times> string list) list"
  is_default :: bool

datatype PostStatus = StatusBuffer | StatusSent | StatusFailed | StatusDraft

record Statistics =
  st_reach :: int
  st_clicks :: int
  st_retweets :: int
  st_favorites :: int
  st_mentions :: int
  st_comments :: int
  st_shares :: int

record BufferPost =
  bp_id :: string
  bp_profile_id :: string
  bp_status :: PostStatus
  bp_text :: string
  bp_text_formatted :: string
  created_at :: int
  due_at :: "int option"
  sent_at :: "int option"
  statistics :: "Statistics option"

text \<open>\<^verbatim>\<open>CreatePostData\<close>: the two fields the client reads.\<close>

record CreatePostData =
  cp_text :: string
  scheduled_at :: "int option"

record Metrics =
  likes :: int
  comments :: int
  shares :: int
  clicks :: int
  retweets :: "int option"
  reactions :: "int option"
  saves :: "int option"

record PostAnalytics =
  postId :: string
  profileId :: string
  service :: SocialPlatform
  publishedAt :: int
  pa_text :: string
  metrics :: Metrics
  engagementRate :: real
  reach :: int
  impressions :: int

text \<open>\<^verbatim>\<open>AnalyticsOptions\<close>, partial or completed: the fields the generators read.\<close>

record AnalyticsOptions =
  o_timeRange :: "TimeRange option"
  o_start :: "int option"
  o_end :: "int option"
  o_period :: "Period option"
  o_platforms :: "SocialPlatform list option"

record TopMetrics =
  tm_likes :: int
  tm_comments :: int
  tm_shares :: int
  tm_clicks :: int
  tm_reach :: int
  tm_impressions :: int

record PlatformBreakdown =
  pb_platform :: SocialPlatform
  pb_postCount :: nat
  pb_engagementRate :: real
  pb_reach :: int

datatype Direction = Up | Down | Stable

record Trending =
  direction :: Direction
  percentage :: int

record AnalyticsSummary =
  su_profileId :: string
  su_timeRange :: TimeRange
  totalPosts :: nat
  totalEngagement :: int
  averageEngagementRate :: real
  bestPerformingPost :: string
  topPerformingTime :: string
  topMetrics :: TopMetrics
  platformBreakdown :: "PlatformBreakdown list"
  trending :: Trending

text \<open>What a synchronous generator reads from outside: the clock, the random source, and
  the table of text templates of \<^verbatim>\<open>generatePlatformContent\<close> (lines 721-746), whose
  entries no property below depends on.\<close>

record env =
  clock :: int
  rnd :: "nat \<Rightarrow> real"
  contentTemplates :: "SocialPlatform \<Rightarrow> string list"

section \<open>Mock profiles and posts\<close>

definition generateMockProfiles :: "BufferProfile list" where
  "generateMockProfiles =
     [\<lparr>pr_id = ''profile_x_001'', pr_service = Xcom,
       service_username = ''bufferoptimizer'', service_id = ''1234567890'',
       formatted_username = ''@bufferoptimizer'',
       avatar = ''https://images.unsplash.com/photo-1472099645785-5658abf4ff4e?w=150&h=150&fit=crop&crop=face'',
       timezone = ''America/Los_Angeles'',
       schedules = [([''mon'', ''tue'', ''wed'', ''thu'', ''fri''],
                     [''09:00'', ''13:00'', ''17:00'', ''20:00'']),
                    ([''sat'', ''sun''], [''11:00'', ''15:00''])],
       is_default = True\<rparr>,
      \<lparr>pr_id = ''profile_linkedin_002'', pr_service = LinkedIn,
       service_username = ''buffer-content-optimizer'', service_id = ''0987654321'',
       formatted_username = ''Buffer Content Optimizer'',
       avatar = ''https://images.unsplash.com/photo-1560250097-0b93528c311a?w=150&h=150&fit=crop&crop=face'',
       timezone = ''America/Los_Angeles'',
       schedules = [([''mon'', ''tue'', ''wed'', ''thu'', ''fri''],
                     [''08:00'', ''12:00'', ''16:00''])],
       is_default = False\<rparr>,
      \<lparr>pr_id = ''profile_facebook_003'', pr_service = Facebook,
       service_username = ''BufferContentOptimizer'', service_id = ''1122334455'',
       formatted_username = ''Buffer Content Optimizer'',
       avatar = ''https://images.unsplash.com/photo-1507003211169-0a1dd7228f2d?w=150&h=150&fit=crop&crop=face'',
       timezone = ''America/Los_Angeles'',
       schedules = [([''mon'', ''tue'', ''wed'', ''thu'', ''fri'', ''sat'', ''sun''],
                     [''10:00'', ''14:00'', ''19:00''])],
       is_default = False\<rparr>,
      \<lparr>pr_id = ''profile_instagram_004'', pr_service = Instagram,
       service_username = ''buffer.optimizer'', service_id = ''5566778899'',
       formatted_username = ''@buffer.optimizer'',
       avatar = ''https://images.unsplash.com/photo-1494790108755-2616b612b647?w=150&h=150&fit=crop&crop=face'',
       timezone = ''America/Los_Angeles'',
       schedules = [([''mon'', ''wed'', ''fri''], [''12:00'', ''17:00'']),
                    ([''sat'', ''sun''], [''10:00'', ''14:00'', ''18:00''])],
       is_default = False\<rparr>]"

text \<open>\<^verbatim>\<open>generateMockPost\<close>, lines 542-561.\<close>

definition generateMockPost :: "int \<Rightarrow> string \<Rightarrow> CreatePostData option \<Rightarrow> BufferPost" where
  "generateMockPost now pid data =
     \<lparr>bp_id = pid,
      bp_profile_id = ''profile_mock_001'',
      bp_status = StatusBuffer,
      bp_text = or_text (map_option cp_text data) (''Mock post content for '' @ pid),
      bp_text_formatted = or_text (map_option cp_text data) (''Mock post content for '' @ pid),
      created_at = now,
      due_at = Some (case Option.bind data scheduled_at of
                       Some t \<Rightarrow> t
                     | None \<Rightarrow> now + 3600000),
      sent_at = None,
      statistics = Some \<lparr>st_reach = 0, st_clicks = 0, st_retweets = 0, st_favorites = 0,
                          st_mentions = 0, st_comments = 0, st_shares = 0\<rparr>\<rparr>"

text \<open>\<^verbatim>\<open>generateMockPostAnalytics\<close>, lines 563-581: eight draws, in the order of the
  object literal.\<close>

definition generateMockPostAnalytics :: "env \<Rightarrow> nat \<Rightarrow> string \<Rightarrow> PostAnalytics" where
  "generateMockPostAnalytics ev c pid =
     \<lparr>postId = pid,
      profileId = ''profile_mock_001'',
      service = Xcom,
      publishedAt = clock ev - 86400000,
      pa_text = ''Sample post for analytics'',
      metrics = \<lparr>likes = \<lfloor>rnd ev c * 200\<rfloor>,
                 comments = \<lfloor>rnd ev (c + 1) * 50\<rfloor>,
                 shares = \<lfloor>rnd ev (c + 2) * 30\<rfloor>,
                 clicks = \<lfloor>rnd ev (c + 3) * 100\<rfloor>,
                 retweets = Some \<lfloor>rnd ev (c + 4) * 25\<rfloor>,
                 reactions = None,
                 saves = None\<rparr>,
      engagementRate = rnd ev (c + 5) * 0.1,
      reach = \<lfloor>rnd ev (c + 6) * 5000\<rfloor>,
      impressions = \<lfloor>rnd ev (c + 7) * 10000\<rfloor>\<rparr>"

section \<open>Public operations on profiles and posts\<close>

text \<open>Each operation branches on \<^verbatim>\<open>config.bufferSDK.sdkMockMode\<close>.  In live mode \<open>http k\<close> is
  what the \<open>k\<close>-th invocation of the request gets from the transport: a thrown value, or
  the \<^verbatim>\<open>data\<close> field of the response envelope.\<close>

definition notFound :: "string \<Rightarrow> string \<Rightarrow> thrown" where
  "notFound c msg = ApiError \<lparr>code = c, message = msg, statusCode = Some 404\<rparr>"

definition live :: "BufferClient \<Rightarrow> (nat \<Rightarrow> thrown + 'a option) \<Rightarrow> thrown \<Rightarrow> thrown + 'a" where
  "live client http missing =
     fst (retryRequest (retryConfig client)
            (\<lambda>k. case http k of
                    Inl e \<Rightarrow> Inl e
                  | Inr None \<Rightarrow> Inl missing
                  | Inr (Some v) \<Rightarrow> Inr v) 1)"

definition profiles_get ::
  "BufferClient \<Rightarrow> (nat \<Rightarrow> thrown + BufferProfile option) \<Rightarrow> string \<Rightarrow> thrown + BufferProfile" where
  "profiles_get client http pid =
     (if sdkMockMode (cfg_bufferSDK (config client))
      then (case find (\<lambda>p. pr_id p = pid) generateMockProfiles of
              None \<Rightarrow> Inl (notFound ''PROFILE_NOT_FOUND'' (''Profile '' @ pid @ '' not found''))
            | Some profile \<Rightarrow> Inr profile)
      else live client http (notFound ''PROFILE_NOT_FOUND'' (''Profile '' @ pid @ '' not found'')))"

definition posts_get ::
  "BufferClient \<Rightarrow> int \<Rightarrow> (nat \<Rightarrow> thrown + BufferPost option) \<Rightarrow> string \<Rightarrow> thrown + BufferPost" where
  "posts_get client now http pid =
     (if sdkMockMode (cfg_bufferSDK (config client))
      then Inr (generateMockPost now pid None)
      else live client http (notFound ''POST_NOT_FOUND'' (''Post '' @ pid @ '' not found'')))"

definition posts_create ::
  "BufferClient \<Rightarrow> int \<Rightarrow> (nat \<Rightarrow> thrown + BufferPost option) \<Rightarrow> string \<Rightarrow> CreatePostData
     \<Rightarrow> thrown + BufferPost" where
  "posts_create client now http pid data =
     (if sdkMockMode (cfg_bufferSDK (config client))
      then Inr (generateMockPost now (''mock_'' @ show_int now) (Some data))
      else live client http
             (ApiError \<lparr>code = ''POST_CREATE_FAILED'', message = ''Failed to create post'',
                        statusCode = None\<rparr>))"

definition posts_analytics ::
  "BufferClient \<Rightarrow> env \<Rightarrow> nat \<Rightarrow> (nat \<Rightarrow> thrown + PostAnalytics option) \<Rightarrow> string
     \<Rightarrow> thrown + PostAnalytics" where
  "posts_analytics client ev c http pid =
     (if sdkMockMode (cfg_bufferSDK (config client))
      then Inr (generateMockPostAnalytics ev c pid)
      else live client http
             (notFound ''ANALYTICS_NOT_FOUND'' (''Analytics for post '' @ pid @ '' not found'')))"

section \<open>Analytics options\<close>

definition millisecondsPerDay :: int where
  "millisecondsPerDay = 24 * 60 * 60 * 1000"

text \<open>\<^verbatim>\<open>new Date(t).toISOString().split('T')[0]\<close>, read back by \<^verbatim>\<open>new Date\<close>: the UTC midnight
  at or before \<open>t\<close>.\<close>

definition isoDate :: "int \<Rightarrow> int" where
  "isoDate t = t - t mod millisecondsPerDay"

text \<open>\<^verbatim>\<open>createCompleteAnalyticsOptions\<close>, lines 288-302.\<close>

definition createCompleteAnalyticsOptions :: "int \<Rightarrow> AnalyticsOptions \<Rightarrow> AnalyticsOptions" where
  "createCompleteAnalyticsOptions now options =
     (let defaultStart = isoDate (now - 30 * 24 * 60 * 60 * 1000);
          defaultEnd = isoDate now
      in \<lparr>o_timeRange = Some (case o_timeRange options of Some r \<Rightarrow> r | None \<Rightarrow> R30d),
          o_start = Some (case o_start options of Some s \<Rightarrow> s | None \<Rightarrow> defaultStart),
          o_end = Some (case o_end options of Some e \<Rightarrow> e | None \<Rightarrow> defaultEnd),
          o_period = Some (case o_period options of Some p \<Rightarrow> p | None \<Rightarrow> Day),
          o_platforms = o_platforms options\<rparr>)"

fun timeRangeMap :: "TimeRange \<Rightarrow> int" where
  "timeRangeMap R7d = 7"
| "timeRangeMap R30d = 30"
| "timeRangeMap R90d = 90"
| "timeRangeMap R1y = 365"
| "timeRangeMap Custom = 30"

text \<open>\<^verbatim>\<open>convertTimeRangeToDateRange\<close> and the date part of \<^verbatim>\<open>buildAnalyticsParams\<close>, lines
  305-350: the \<^verbatim>\<open>start\<close> and \<^verbatim>\<open>end\<close> parameters of a live request.\<close>

definition convertTimeRangeToDateRange :: "int \<Rightarrow> TimeRange \<Rightarrow> int \<times> int" where
  "convertTimeRangeToDateRange now r =
     (isoDate (now - timeRangeMap r * 24 * 60 * 60 * 1000), isoDate now)"

definition buildAnalyticsParams :: "int \<Rightarrow> AnalyticsOptions \<Rightarrow> int option \<times> int option" where
  "buildAnalyticsParams now options =
     (if o_start options \<noteq> None \<or> o_end options \<noteq> None
      then (o_start options, o_end options)
      else (case o_timeRange options of
              Some r \<Rightarrow> (case convertTimeRangeToDateRange now r of (s, e) \<Rightarrow> (Some s, Some e))
            | None \<Rightarrow>
                (case convertTimeRangeToDateRange now R30d of (s, e) \<Rightarrow> (Some s, Some e))))"

text \<open>\<^verbatim>\<open>getTimeRangeDays\<close>, lines 644-662.\<close>

definition getTimeRangeDays :: "AnalyticsOptions \<Rightarrow> int" where
  "getTimeRangeDays options =
     (case (o_start options, o_end options) of
        (Some s, Some e) \<Rightarrow> \<lceil>real_of_int (e - s) / (24 * 60 * 60 * 1000)\<rceil>
      | _ \<Rightarrow> timeRangeMap (case o_timeRange options of Some r \<Rightarrow> r | None \<Rightarrow> R30d))"

text \<open>\<^verbatim>\<open>calculatePostCount\<close>, lines 665-675.\<close>

definition calculatePostCount :: "int \<Rightarrow> AnalyticsOptions \<Rightarrow> int" where
  "calculatePostCount days options =
     (let platformCount = or_default (map_option length (o_platforms options)) 4;
          basePostsPerDay = platformCount;
          multiplier = (if o_period options = Some Week then 0.5
                        else if o_period options = Some Month then 0.3 else 1)
      in min \<lfloor>real_of_int days * real basePostsPerDay * multiplier\<rfloor> 500)"

section \<open>Platform tables\<close>

fun getProfileIdForPlatform :: "SocialPlatform \<Rightarrow> string \<Rightarrow> string" where
  "getProfileIdForPlatform Xcom fallbackId = ''profile_x_001''"
| "getProfileIdForPlatform LinkedIn fallbackId = ''profile_linkedin_002''"
| "getProfileIdForPlatform Facebook fallbackId = ''profile_facebook_003''"
| "getProfileIdForPlatform Instagram fallbackId = ''profile_instagram_004''"

fun getBaseEngagementForPlatform :: "SocialPlatform \<Rightarrow> real" where
  "getBaseEngagementForPlatform Xcom = 0.045"
| "getBaseEngagementForPlatform LinkedIn = 0.054"
| "getBaseEngagementForPlatform Facebook = 0.063"
| "getBaseEngagementForPlatform Instagram = 0.071"

fun reachRanges :: "SocialPlatform \<Rightarrow> real \<times> real" where
  "reachRanges Xcom = (800, 8000)"
| "reachRanges LinkedIn = (500, 3000)"
| "reachRanges Facebook = (1200, 12000)"
| "reachRanges Instagram = (600, 6000)"

text \<open>Both take the value drawn by their \<^verbatim>\<open>Math.random()\<close> as \<open>r\<close>.\<close>

definition getPlatformReach :: "SocialPlatform \<Rightarrow> real \<Rightarrow> int" where
  "getPlatformReach platform r =
     (case reachRanges platform of (lo, hi) \<Rightarrow> \<lfloor>r * (hi - lo) + lo\<rfloor>)"

fun multipliers :: "SocialPlatform \<Rightarrow> real" where
  "multipliers Xcom = 1.8"
| "multipliers LinkedIn = 1.4"
| "multipliers Facebook = 2.2"
| "multipliers Instagram = 1.6"

definition getPlatformImpressionMultiplier :: "SocialPlatform \<Rightarrow> real \<Rightarrow> real" where
  "getPlatformImpressionMultiplier platform r = multipliers platform + r * 0.4"

text \<open>\<^verbatim>\<open>generatePlatformContent\<close>, lines 720-750.  The source's table has four templates for
  each platform; with an empty list the source yields \<^verbatim>\<open>undefined\<close> and the model an
  unspecified string.\<close>

definition generatePlatformContent :: "env \<Rightarrow> SocialPlatform \<Rightarrow> int \<Rightarrow> string" where
  "generatePlatformContent ev platform index =
     (let templates = contentTemplates ev platform
      in templates ! (nat index mod length templates))"

text \<open>\<^verbatim>\<open>generatePlatformMetrics\<close>, lines 752-826.  A weight that a platform's distribution
  does not have is \<^verbatim>\<open>undefined\<close>, and \<^verbatim>\<open>dist.w || 0\<close> reads it as 0.\<close>

record Distribution =
  d_likes :: real
  d_retweets :: "real option"
  d_comments :: "real option"
  d_shares :: "real option"
  d_saves :: "real option"
  d_clicks :: "real option"

fun distributions :: "SocialPlatform \<Rightarrow> Distribution" where
  "distributions Xcom =
     \<lparr>d_likes = 0.6, d_retweets = Some 0.15, d_comments = Some 0.15, d_shares = None,
      d_saves = None, d_clicks = Some 0.1\<rparr>"
| "distributions LinkedIn =
     \<lparr>d_likes = 0.5, d_retweets = None, d_comments = Some 0.25, d_shares = Some 0.15,
      d_saves = None, d_clicks = Some 0.1\<rparr>"
| "distributions Facebook =
     \<lparr>d_likes = 0.55, d_retweets = None, d_comments = Some 0.2, d_shares = Some 0.15,
      d_saves = None, d_clicks = Some 0.1\<rparr>"
| "distributions Instagram =
     \<lparr>d_likes = 0.75, d_retweets = None, d_comments = Some 0.15, d_shares = None,
      d_saves = Some 0.08, d_clicks = Some 0.02\<rparr>"

definition or_zero :: "real option \<Rightarrow> real" where
  "or_zero w = (case w of None \<Rightarrow> 0 | Some v \<Rightarrow> v)"

definition generatePlatformMetrics :: "SocialPlatform \<Rightarrow> real \<Rightarrow> int \<Rightarrow> Metrics" where
  "generatePlatformMetrics platform rate r =
     (let totalEngagement = \<lfloor>real_of_int r * rate\<rfloor>;
          dist = distributions platform;
          baseMetrics =
            \<lparr>likes = \<lfloor>real_of_int totalEngagement * d_likes dist\<rfloor>,
             comments = \<lfloor>real_of_int totalEngagement * or_zero (d_comments dist)\<rfloor>,
             shares = \<lfloor>real_of_int totalEngagement * or_zero (d_shares dist)\<rfloor>,
             clicks = \<lfloor>real_of_int totalEngagement * or_zero (d_clicks dist)\<rfloor>,
             retweets = None, reactions = None, saves = None\<rparr>
      in case platform of
           Xcom \<Rightarrow>
             baseMetrics\<lparr>retweets :=
               Some \<lfloor>real_of_int totalEngagement * or_zero (d_retweets dist)\<rfloor>\<rparr>
         | LinkedIn \<Rightarrow>
             baseMetrics\<lparr>shares :=
               \<lfloor>real_of_int totalEngagement * or_zero (d_shares dist)\<rfloor>\<rparr>
         | Facebook \<Rightarrow>
             baseMetrics\<lparr>shares :=
               \<lfloor>real_of_int totalEngagement * or_zero (d_shares dist)\<rfloor>,
               reactions := Some (likes baseMetrics)\<rparr>
         | Instagram \<Rightarrow>
             baseMetrics\<lparr>saves :=
               Some \<lfloor>real_of_int totalEngagement * or_zero (d_saves dist)\<rfloor>\<rparr>)"

section \<open>Batch analytics generation\<close>

text \<open>\<^verbatim>\<open>generateMockAnalytics\<close>, lines 583-641.  The mutable locals of the two loops are a
  state: the index of the next post, the cursor of the random source (three draws for each
  post pushed: the jitter, the reach, the impression multiplier), and the posts pushed so
  far.  A local whose name a record field has taken is renamed: \<open>totalN\<close> is the source's
  \<^verbatim>\<open>totalPosts\<close>, and \<open>rate\<close>, \<open>r\<close>, \<open>imp\<close> are its \<^verbatim>\<open>engagementRate\<close>, \<^verbatim>\<open>reach\<close>,
  \<^verbatim>\<open>impressions\<close>.\<close>

record gen_state =
  postIndex :: int
  cursor :: nat
  analytics :: "PostAnalytics list"

definition platforms :: "SocialPlatform list" where
  "platforms = [Xcom, LinkedIn, Facebook, Instagram]"

text \<open>Lines 592-594.  The result is never empty (lemma \<open>platformsToUse_nonempty\<close>), so the
  index \<^verbatim>\<open>postIndex % platformsToUse.length\<close> of line 605 is in range.\<close>

definition platformsToUse :: "AnalyticsOptions \<Rightarrow> SocialPlatform list" where
  "platformsToUse options =
     (case o_platforms options of
        Some ps \<Rightarrow> if length ps > 0 then filter (\<lambda>p. p \<in> set platforms) ps else platforms
      | None \<Rightarrow> platforms)"

text \<open>Lines 616-634: the record pushed for the post of index \<open>k\<close>, drawn at cursor \<open>c\<close>.\<close>

definition makePost ::
  "env \<Rightarrow> string \<Rightarrow> SocialPlatform \<Rightarrow> int \<Rightarrow> nat \<Rightarrow> int \<Rightarrow> PostAnalytics" where
  "makePost ev fallbackId platform k c postDate =
     (let currentProfileId = getProfileIdForPlatform platform fallbackId;
          content = generatePlatformContent ev platform k;
          baseEngagement = getBaseEngagementForPlatform platform;
          variation = (rnd ev c - 0.5) * 0.02;
          rate = max 0.01 (baseEngagement + variation);
          r = getPlatformReach platform (rnd ev (c + 1));
          imp = \<lfloor>real_of_int r * getPlatformImpressionMultiplier platform (rnd ev (c + 2))\<rfloor>
      in \<lparr>postId = ''post_'' @ platform_name platform @ ''_'' @ show_int k,
          profileId = currentProfileId,
          service = platform,
          publishedAt = postDate,
          pa_text = content,
          metrics = generatePlatformMetrics platform rate r,
          engagementRate = rate,
          reach = r,
          impressions = imp\<rparr>)"

text \<open>One pass of the inner loop's body, lines 605-636, for the slot \<open>i\<close> of day \<open>day\<close>:
  either \<^verbatim>\<open>continue\<close>, which leaves the state as it is, or a push.\<close>

definition slotStep ::
  "env \<Rightarrow> string \<Rightarrow> AnalyticsOptions \<Rightarrow> int \<Rightarrow> int \<Rightarrow> int \<Rightarrow> gen_state \<Rightarrow> gen_state" where
  "slotStep ev fallbackId options day dailyPostCount i st =
     (let ps = platformsToUse options;
          platformIndex = nat (postIndex st) mod length ps;
          platform = ps ! platformIndex;
          postDate = js_trunc (real_of_int (clock ev)
                       - real_of_int (day * millisecondsPerDay)
                       - real_of_int i * (real_of_int millisecondsPerDay / real_of_int dailyPostCount))
      in if (case o_start options of Some s \<Rightarrow> postDate < s | None \<Rightarrow> False) then st
         else if (case o_end options of Some e \<Rightarrow> postDate > e | None \<Rightarrow> False) then st
         else st\<lparr>analytics :=
                   analytics st @ [makePost ev fallbackId platform (postIndex st) (cursor st) postDate],
                 postIndex := postIndex st + 1,
                 cursor := cursor st + 3\<rparr>)"

function slotLoop ::
  "env \<Rightarrow> string \<Rightarrow> AnalyticsOptions \<Rightarrow> int \<Rightarrow> int \<Rightarrow> int \<Rightarrow> int \<Rightarrow> gen_state \<Rightarrow> gen_state" where
  "slotLoop ev fallbackId options totalN day dailyPostCount i st =
     (if i < dailyPostCount \<and> postIndex st < totalN
      then slotLoop ev fallbackId options totalN day dailyPostCount (i + 1)
             (slotStep ev fallbackId options day dailyPostCount i st)
      else st)"
  by pat_completeness auto
termination
  by (relation "measure (\<lambda>(ev, fallbackId, options, totalN, day, dailyPostCount, i, st).
                  nat (dailyPostCount - i))") auto

declare slotLoop.simps [simp del]

function dayLoop ::
  "env \<Rightarrow> string \<Rightarrow> AnalyticsOptions \<Rightarrow> int \<Rightarrow> int \<Rightarrow> int \<Rightarrow> int \<Rightarrow> gen_state \<Rightarrow> gen_state" where
  "dayLoop ev fallbackId options totalN timeRangeDays postsPerDay day st =
     (if day < timeRangeDays
      then dayLoop ev fallbackId options totalN timeRangeDays postsPerDay (day + 1)
             (slotLoop ev fallbackId options totalN day
                (min postsPerDay (totalN - postIndex st)) 0 st)
      else st)"
  by pat_completeness auto
termination
  by (relation "measure (\<lambda>(ev, fallbackId, options, totalN, timeRangeDays, postsPerDay, day, st).
                  nat (timeRangeDays - day))") auto

declare dayLoop.simps [simp del]

text \<open>The state after both loops.  When \<open>timeRangeDays\<close> is 0 the quotient is not a number
  in JavaScript; the loop then has no pass and \<open>postsPerDay\<close> is never read.\<close>

definition generated :: "env \<Rightarrow> nat \<Rightarrow> string \<Rightarrow> AnalyticsOptions \<Rightarrow> gen_state" where
  "generated ev c fallbackId options =
     (let timeRangeDays = getTimeRangeDays options;
          totalN = calculatePostCount timeRangeDays options;
          postsPerDay = \<lceil>real_of_int totalN / real_of_int timeRangeDays\<rceil>
      in dayLoop ev fallbackId options totalN timeRangeDays postsPerDay 0
           \<lparr>postIndex = 0, cursor = c, analytics = []\<rparr>)"

text \<open>The stable sort of line 640, newest first.\<close>

definition generateMockAnalytics ::
  "env \<Rightarrow> nat \<Rightarrow> string \<Rightarrow> AnalyticsOptions \<Rightarrow> PostAnalytics list" where
  "generateMockAnalytics ev c fallbackId options =
     sort_key (\<lambda>p. - publishedAt p) (analytics (generated ev c fallbackId options))"

section \<open>Summary generation\<close>

text \<open>\<^verbatim>\<open>Object.values(post.metrics)\<close>: the values of the keys the record has.\<close>

definition metricValues :: "Metrics \<Rightarrow> int list" where
  "metricValues m =
     [likes m, comments m, clicks m, shares m]
       @ (case retweets m of Some v \<Rightarrow> [v] | None \<Rightarrow> [])
       @ (case reactions m of Some v \<Rightarrow> [v] | None \<Rightarrow> [])
       @ (case saves m of Some v \<Rightarrow> [v] | None \<Rightarrow> [])"

definition bestPost :: "PostAnalytics list \<Rightarrow> PostAnalytics option" where
  "bestPost posts =
     (case posts of
        [] \<Rightarrow> None
      | p # _ \<Rightarrow>
          Some (foldl (\<lambda>best current.
                  if engagementRate current > engagementRate best then current else best)
                p posts))"

definition platformBreakdownOf :: "PostAnalytics list \<Rightarrow> PlatformBreakdown list" where
  "platformBreakdownOf posts =
     filter (\<lambda>item. pb_postCount item > 0)
       (map (\<lambda>platform.
               let platformPosts = filter (\<lambda>post. service post = platform) posts;
                   platformEngagement =
                     foldl (\<lambda>sum post. sum + engagementRate post) 0 platformPosts;
                   avgRate = (if length platformPosts > 0
                              then platformEngagement / real (length platformPosts) else 0);
                   totalReach = foldl (\<lambda>sum post. sum + reach post) 0 platformPosts
               in \<lparr>pb_platform = platform, pb_postCount = length platformPosts,
                   pb_engagementRate = avgRate, pb_reach = totalReach\<rparr>)
          [Xcom, LinkedIn, Facebook, Instagram])"

text \<open>\<^verbatim>\<open>generateMockSummary\<close>, lines 828-883.  The last draw, for the trend percentage,
  comes after those of the generation.\<close>

definition generateMockSummary ::
  "env \<Rightarrow> nat \<Rightarrow> string \<Rightarrow> AnalyticsOptions \<Rightarrow> AnalyticsSummary" where
  "generateMockSummary ev c pid options =
     (let posts = generateMockAnalytics ev c pid options;
          totalEng = foldl (\<lambda>sum post.
                        sum + foldl (\<lambda>metricSum val. metricSum + val) 0
                                (metricValues (metrics post))) 0 posts;
          avgEngagementRate =
            (if length posts > 0
             then foldl (\<lambda>sum post. sum + engagementRate post) 0 posts / real (length posts)
             else 0);
          best = bestPost posts
      in \<lparr>su_profileId = pid,
          su_timeRange = (case o_timeRange options of Some r \<Rightarrow> r | None \<Rightarrow> R30d),
          totalPosts = length posts,
          totalEngagement = totalEng,
          averageEngagementRate = avgEngagementRate,
          bestPerformingPost = or_text (map_option postId best) (''post_'' @ pid @ ''_best''),
          topPerformingTime = ''14:00'',
          topMetrics =
            \<lparr>tm_likes = foldl (\<lambda>sum post. sum + likes (metrics post)) 0 posts,
             tm_comments = foldl (\<lambda>sum post. sum + comments (metrics post)) 0 posts,
             tm_shares = foldl (\<lambda>sum post. sum + shares (metrics post)) 0 posts,
             tm_clicks = foldl (\<lambda>sum post. sum + clicks (metrics post)) 0 posts,
             tm_reach = foldl (\<lambda>sum post. sum + reach post) 0 posts,
             tm_impressions = foldl (\<lambda>sum post. sum + impressions post) 0 posts\<rparr>,
          platformBreakdown = platformBreakdownOf posts,
          trending =
            \<lparr>direction = (if avgEngagementRate > 0.05 then Up else Down),
             percentage =
               \<lfloor>rnd ev (cursor (generated ev c pid options)) * 20\<rfloor> + 5\<rparr>\<rparr>)"

section \<open>Public analytics operations\<close>

text \<open>\<^verbatim>\<open>executeAnalyticsRequest\<close> with the generators of \<^verbatim>\<open>analytics.posts\<close> and
  \<^verbatim>\<open>analytics.summary\<close>, lines 353-401.\<close>

definition analytics_posts ::
  "BufferClient \<Rightarrow> env \<Rightarrow> nat \<Rightarrow> (nat \<Rightarrow> thrown + PostAnalytics list option) \<Rightarrow> string
     \<Rightarrow> AnalyticsOptions \<Rightarrow> thrown + PostAnalytics list" where
  "analytics_posts client ev c http pid options =
     (if sdkMockMode (cfg_bufferSDK (config client))
      then Inr (generateMockAnalytics ev c pid
                  (createCompleteAnalyticsOptions (clock ev) options))
      else live client http
             (notFound ''POSTS_NOT_FOUND'' (''Analytics posts for profile '' @ pid @ '' not found'')))"

definition analytics_summary ::
  "BufferClient \<Rightarrow> env \<Rightarrow> nat \<Rightarrow> (nat \<Rightarrow> thrown + AnalyticsSummary option) \<Rightarrow> string
     \<Rightarrow> AnalyticsOptions \<Rightarrow> thrown + AnalyticsSummary" where
  "analytics_summary client ev c http pid options =
     (if sdkMockMode (cfg_bufferSDK (config client))
      then Inr (generateMockSummary ev c pid
                  (createCompleteAnalyticsOptions (clock ev) options))
      else live client http
             (notFound ''SUMMARY_NOT_FOUND'' (''Summary for profile '' @ pid @ '' not found'')))"

section \<open>A configuration to evaluate on\<close>



definition demoClient :: "bool \<Rightarrow> int \<Rightarrow> BufferClient" where
  "demoClient m t =
     \<lparr>config = \<lparr>cfg_accessToken = Some ''mock-token'',
                cfg_baseUrl = ''http://localhost:8083/api/v1/sdk'',
                cfg_timeout = 10000, cfg_retryAttempts = 3, cfg_retryDelay = 1000,
                cfg_rateLimit = \<lparr>rl_requests = 100, rl_window = 3600000\<rparr>,
                cfg_bufferSDK = \<lparr>clientId = ''test-client-id'',
                                  clientSecret = ''test-client-secret'',
                                  redirectUri = ''http://localhost:3000/callback'',
                                  sdk_code = None, sdkMockMode = m\<rparr>\<rparr>,
      retryConfig = \<lparr>attempts = 3, delay = 1000, backoffFactor = 2\<rparr>,
      rateLimitState = \<lparr>requests = 0, resetTime = t + 3600000\<rparr>\<rparr>"


text \<open>The environment of a call made at 2024-01-31T12:00:00Z, every draw being 0.5, with
  four placeholder templates for each platform.\<close>

definition noonEnv :: env where
  "noonEnv =
     \<lparr>clock = 1706702400000, rnd = (\<lambda>k. 1 / 2),
      contentTemplates = (\<lambda>p. [''t0'', ''t1'', ''t2'', ''t3''])\<rparr>"

section \<open>Properties of the rate limiter\<close>

lemma checkRateLimit_admits:
  "now \<le> resetTime st \<Longrightarrow> requests st < rl_requests rl \<Longrightarrow>
   checkRateLimit rl now st = (Inr (), st\<lparr>requests := requests st + 1\<rparr>)"
  by (simp add: checkRateLimit_def resetWindow_def)

lemma checkRateLimit_rejects:
  "now \<le> resetTime st \<Longrightarrow> rl_requests rl \<le> requests st \<Longrightarrow>
   checkRateLimit rl now st = (Inl (rateLimitError (resetTime st - now)), st)"
  by (simp add: checkRateLimit_def resetWindow_def)

lemma checkRateLimit_expired:
  "resetTime st < now \<Longrightarrow> 0 < rl_requests rl \<Longrightarrow>
   checkRateLimit rl now st = (Inr (), st\<lparr>requests := 1, resetTime := now + int (rl_window rl)\<rparr>)"
  by (simp add: checkRateLimit_def resetWindow_def)

lemma checkRateLimits_append:
  "checkRateLimits rl (xs @ ys) st =
     (case checkRateLimits rl xs st of
        (rs, s1) \<Rightarrow> (case checkRateLimits rl ys s1 of (rs', s2) \<Rightarrow> (rs @ rs', s2)))"
  by (induction xs arbitrary: st) (auto split: prod.splits)

lemma checkRateLimits_within_quota:
  "list_all (\<lambda>t. t \<le> resetTime st) ts \<Longrightarrow> requests st + length ts \<le> rl_requests rl \<Longrightarrow>
   checkRateLimits rl ts st =
     (replicate (length ts) (Inr ()), st\<lparr>requests := requests st + length ts\<rparr>)"
proof (induction ts arbitrary: st)
  case Nil
  then show ?case by simp
next
  case (Cons t ts)
  let ?st1 = "st\<lparr>requests := requests st + 1\<rparr>"
  from Cons.prems have step: "checkRateLimit rl t st = (Inr (), ?st1)"
    by (intro checkRateLimit_admits) auto
  from Cons.prems have "checkRateLimits rl ts ?st1 =
      (replicate (length ts) (Inr ()), ?st1\<lparr>requests := requests ?st1 + length ts\<rparr>)"
    by (intro Cons.IH) auto
  with step show ?case by simp
qed

text \<open>
  Claim C3.  With a quota of \<open>rl_requests rl\<close> requests per window and a fresh counter,
  \<open>rl_requests rl\<close> checks issued before the window's \<open>resetTime\<close> has passed all
  succeed, the counter standing at \<open>k\<close> after the first \<open>k\<close> of them; one more check in
  the same window fails with \<open>RATE_LIMIT_EXCEEDED\<close>, its message carrying the remaining
  wait in seconds, and leaves the counter alone.  Once the clock has passed \<open>resetTime\<close>
  the counter is reset to 0, the new \<open>resetTime\<close> is the current instant plus the window,
  and that check succeeds.
\<close>

theorem rate_limit_windowing:
  assumes quota: "0 < rl_requests rl"
      and fresh: "requests st = 0"
      and len: "length ts = rl_requests rl"
      and inside: "list_all (\<lambda>t. t \<le> resetTime st) ts" "t' \<le> resetTime st"
      and expired: "resetTime st2 < later"
  shows "(\<forall>k \<le> rl_requests rl.
            checkRateLimits rl (take k ts) st = (replicate k (Inr ()), st\<lparr>requests := k\<rparr>))
       \<and> checkRateLimits rl (ts @ [t']) st =
            (replicate (rl_requests rl) (Inr ()) @ [Inl (rateLimitError (resetTime st - t'))],
             st\<lparr>requests := rl_requests rl\<rparr>)
       \<and> code (rateLimitError (resetTime st - t')) = ''RATE_LIMIT_EXCEEDED''
       \<and> message (rateLimitError (resetTime st - t')) =
            ''Rate limit exceeded. Try again in ''
              @ show_int \<lceil>real_of_int (resetTime st - t') / 1000\<rceil> @ '' seconds.''
       \<and> resetWindow rl later st2 = st2\<lparr>requests := 0, resetTime := later + int (rl_window rl)\<rparr>
       \<and> checkRateLimit rl later st2 =
            (Inr (), st2\<lparr>requests := 1, resetTime := later + int (rl_window rl)\<rparr>)"
proof -
  have prefix: "checkRateLimits rl (take k ts) st = (replicate k (Inr ()), st\<lparr>requests := k\<rparr>)"
    if "k \<le> rl_requests rl" for k
  proof -
    have "list_all (\<lambda>t. t \<le> resetTime st) (take k ts)"
      using inside(1) by (auto simp: list_all_iff dest: in_set_takeD)
    moreover have "length (take k ts) = k" using that len by simp
    ultimately show ?thesis
      using checkRateLimits_within_quota [of st "take k ts" rl] fresh that by simp
  qed
  have all: "checkRateLimits rl ts st =
      (replicate (rl_requests rl) (Inr ()), st\<lparr>requests := rl_requests rl\<rparr>)"
    using prefix [of "rl_requests rl"] len by simp
  have last: "checkRateLimit rl t' (st\<lparr>requests := rl_requests rl\<rparr>) =
      (Inl (rateLimitError (resetTime st - t')), st\<lparr>requests := rl_requests rl\<rparr>)"
    using checkRateLimit_rejects [of t' "st\<lparr>requests := rl_requests rl\<rparr>" rl] inside(2) by simp
  have run: "checkRateLimits rl (ts @ [t']) st =
      (replicate (rl_requests rl) (Inr ()) @ [Inl (rateLimitError (resetTime st - t'))],
       st\<lparr>requests := rl_requests rl\<rparr>)"
    by (simp add: checkRateLimits_append all last)
  have reset: "resetWindow rl later st2 = st2\<lparr>requests := 0, resetTime := later + int (rl_window rl)\<rparr>"
    using expired by (simp add: resetWindow_def)
  have again: "checkRateLimit rl later st2 =
      (Inr (), st2\<lparr>requests := 1, resetTime := later + int (rl_window rl)\<rparr>)"
    using checkRateLimit_expired [OF expired quota] .
  show ?thesis
    using prefix run reset again by (simp add: rateLimitError_def)
qed

theorem rate_limit_windowing_witness:
  "checkRateLimits \<lparr>rl_requests = 2, rl_window = 1000\<rparr> ([10, 20] @ [30])
       \<lparr>requests = 0, resetTime = 1000\<rparr> =
     ([Inr (), Inr (), Inl (rateLimitError 970)], \<lparr>requests = 2, resetTime = 1000\<rparr>)
   \<and> message (rateLimitError (1000 - 30)) = ''Rate limit exceeded. Try again in 1 seconds.''
   \<and> checkRateLimit \<lparr>rl_requests = 2, rl_window = 1000\<rparr> 1001 \<lparr>requests = 2, resetTime = 1000\<rparr> =
     (Inr (), \<lparr>requests = 1, resetTime = 2001\<rparr>)"
  using rate_limit_windowing [of "\<lparr>rl_requests = 2, rl_window = 1000\<rparr>"
      "\<lparr>requests = 0, resetTime = 1000\<rparr>" "[10, 20]" 30 "\<lparr>requests = 2, resetTime = 1000\<rparr>" 1001]
  by (simp add: show_int_def show_nat.simps digit_char_def numeral_2_eq_2)

section \<open>Properties of the retry wrapper\<close>

lemma retryRequest_keeps_failing:
  assumes fails: "\<And>k. (\<exists>e. requestFn k = Inl (ApiError e) \<and> code e \<in> set retryableCodes)
                      \<or> (\<exists>s. requestFn k = Inl (OtherError s))"
      and bound: "c \<le> attempts rc"
  shows "retryRequest rc requestFn c =
           (requestFn (attempts rc), attempts rc - c + 1,
            map (\<lambda>k. delay rc * backoffFactor rc ^ (k - 1)) [c..<attempts rc])"
  using bound
proof (induction "attempts rc - c" arbitrary: c)
  case 0
  then have c: "c = attempts rc" by simp
  from fails [of c] show ?case
    by (subst retryRequest.simps) (auto simp: c)
next
  case (Suc d)
  then have lt: "c < attempts rc" and d: "d = attempts rc - (c + 1)" and le: "c + 1 \<le> attempts rc"
    by auto
  have rest: "retryRequest rc requestFn (c + 1) =
      (requestFn (attempts rc), attempts rc - (c + 1) + 1,
       map (\<lambda>k. delay rc * backoffFactor rc ^ (k - 1)) [c + 1..<attempts rc])"
    using Suc.hyps(1) [OF d le] .
  have range: "[c..<attempts rc] = c # [c + 1..<attempts rc]"
    using lt by (simp add: upt_conv_Cons)
  have count: "attempts rc - (c + 1) + 1 + 1 = attempts rc - c + 1"
    using lt by simp
  from fails [of c] lt show ?case
    by (subst retryRequest.simps) (auto simp: rest [simplified] range count [simplified])
qed

lemma retryRequest_gives_up:
  "requestFn c = Inl (ApiError e) \<Longrightarrow> code e \<notin> set retryableCodes \<Longrightarrow>
   retryRequest rc requestFn c = (Inl (ApiError e), 1, [])"
  by (subst retryRequest.simps) simp

text \<open>
  Claim C4.  With \<open>attempts rc = N\<close>, \<open>N \<ge> 1\<close>: a request whose every invocation fails
  with a \<open>BufferAPIError\<close> whose code is one of \<open>retryableCodes\<close> is invoked exactly \<open>N\<close>
  times and the error of the last invocation propagates; a request whose first invocation
  fails with a \<open>BufferAPIError\<close> of any other code is invoked exactly once and that error
  propagates.
\<close>

theorem retry_bound:
  assumes "1 \<le> attempts rc"
  shows "((\<forall>k. \<exists>e. requestFn k = Inl (ApiError e) \<and> code e \<in> set retryableCodes) \<longrightarrow>
            retryRequest rc requestFn 1 =
              (requestFn (attempts rc), attempts rc,
               map (\<lambda>k. delay rc * backoffFactor rc ^ (k - 1)) [1..<attempts rc]))
       \<and> (\<forall>e. requestFn 1 = Inl (ApiError e) \<and> code e \<notin> set retryableCodes \<longrightarrow>
            retryRequest rc requestFn 1 = (Inl (ApiError e), 1, []))"
proof (intro conjI impI allI)
  assume "\<forall>k. \<exists>e. requestFn k = Inl (ApiError e) \<and> code e \<in> set retryableCodes"
  then have "\<And>k. (\<exists>e. requestFn k = Inl (ApiError e) \<and> code e \<in> set retryableCodes)
                      \<or> (\<exists>s. requestFn k = Inl (OtherError s))"
    by blast
  from retryRequest_keeps_failing [of requestFn 1 rc, OF this assms]
  show "retryRequest rc requestFn 1 =
      (requestFn (attempts rc), attempts rc,
       map (\<lambda>k. delay rc * backoffFactor rc ^ (k - 1)) [1..<attempts rc])"
    using assms by simp
next
  fix e
  assume "requestFn 1 = Inl (ApiError e) \<and> code e \<notin> set retryableCodes"
  then show "retryRequest rc requestFn 1 = (Inl (ApiError e), 1, [])"
    by (simp add: retryRequest_gives_up)
qed

theorem retry_bound_witness:
  "retryRequest \<lparr>attempts = 3, delay = 1000, backoffFactor = 2\<rparr>
     (\<lambda>k. Inl (ApiError \<lparr>code = ''HTTP_503'', message = ''Service Unavailable'', statusCode = Some 503\<rparr>)
        :: thrown + unit) 1
   = (Inl (ApiError \<lparr>code = ''HTTP_503'', message = ''Service Unavailable'', statusCode = Some 503\<rparr>),
      3, [1000, 2000])
   \<and> retryRequest \<lparr>attempts = 3, delay = 1000, backoffFactor = 2\<rparr>
     (\<lambda>k. Inl (ApiError \<lparr>code = ''HTTP_404'', message = ''Not Found'', statusCode = Some 404\<rparr>)
        :: thrown + unit) 1
   = (Inl (ApiError \<lparr>code = ''HTTP_404'', message = ''Not Found'', statusCode = Some 404\<rparr>), 1, [])"
  using retry_bound [of "\<lparr>attempts = 3, delay = 1000, backoffFactor = 2\<rparr>"
      "\<lambda>k. Inl (ApiError \<lparr>code = ''HTTP_503'', message = ''Service Unavailable'', statusCode = Some 503\<rparr>) :: thrown + unit"]
    retry_bound [of "\<lparr>attempts = 3, delay = 1000, backoffFactor = 2\<rparr>"
      "\<lambda>k. Inl (ApiError \<lparr>code = ''HTTP_404'', message = ''Not Found'', statusCode = Some 404\<rparr>) :: thrown + unit"]
  by (simp add: retryableCodes_def upt_conv_Cons)

text \<open>
  Claim C9.  The code filter is applied to \<open>BufferAPIError\<close> instances only: with
  \<open>attempts rc = N\<close>, \<open>N > 1\<close>, a request whose every invocation throws something that is
  not a \<open>BufferAPIError\<close> is invoked \<open>N\<close> times, with the exponential delays in between,
  whatever the thrown values contain.
\<close>

theorem retry_ignores_filter_for_other_errors:
  assumes "1 < attempts rc"
      and "\<forall>k. \<exists>s. requestFn k = Inl (OtherError s)"
  shows "retryRequest rc requestFn 1 =
           (requestFn (attempts rc), attempts rc,
            map (\<lambda>k. delay rc * backoffFactor rc ^ (k - 1)) [1..<attempts rc])"
proof -
  from assms(2) have "\<And>k. (\<exists>e. requestFn k = Inl (ApiError e) \<and> code e \<in> set retryableCodes)
                      \<or> (\<exists>s. requestFn k = Inl (OtherError s))"
    by blast
  from retryRequest_keeps_failing [of requestFn 1 rc, OF this] assms(1)
  show ?thesis by simp
qed

theorem retry_ignores_filter_for_other_errors_witness:
  "retryRequest \<lparr>attempts = 3, delay = 1000, backoffFactor = 2\<rparr>
     (\<lambda>k. Inl (OtherError ''PROFILE_NOT_FOUND'') :: thrown + unit) 1
   = (Inl (OtherError ''PROFILE_NOT_FOUND''), 3, [1000, 2000])"
  using retry_ignores_filter_for_other_errors [of "\<lparr>attempts = 3, delay = 1000, backoffFactor = 2\<rparr>"
      "\<lambda>k. Inl (OtherError ''PROFILE_NOT_FOUND'') :: thrown + unit"]
  by (simp add: upt_conv_Cons)

section \<open>Initialisation\<close>






section \<open>Simulation mode: profiles and posts\<close>

lemma mock_profile_ids:
  "map pr_id generateMockProfiles =
     [''profile_x_001'', ''profile_linkedin_002'', ''profile_facebook_003'',
      ''profile_instagram_004'']"
  by (simp add: generateMockProfiles_def)

lemma find_absent: "x \<notin> set (map f xs) \<Longrightarrow> find (\<lambda>p. f p = x) xs = None"
  by (induction xs) auto

lemma find_present:
  "x \<in> set (map f xs) \<Longrightarrow> \<exists>p \<in> set xs. find (\<lambda>p. f p = x) xs = Some p \<and> f p = x"
  by (induction xs) auto

text \<open>
  What the neighbours of the simulated \<open>posts.get\<close> do: in simulation mode \<open>profiles.get\<close>
  fails with \<open>PROFILE_NOT_FOUND\<close> (status 404) for every id absent from the catalog of four
  mock profiles and returns the catalog entry otherwise, and in live mode \<open>posts.get\<close> fails
  with \<open>POST_NOT_FOUND\<close> when the response has no data.  In simulation mode \<open>posts.get\<close>
  returns a fabricated post for every id.
\<close>

lemma profiles_get_in_simulation:
  assumes "sdkMockMode (cfg_bufferSDK (config client))"
  shows "(pid \<notin> set (map pr_id generateMockProfiles) \<longrightarrow>
            profiles_get client http pid =
              Inl (ApiError \<lparr>code = ''PROFILE_NOT_FOUND'',
                             message = ''Profile '' @ pid @ '' not found'',
                             statusCode = Some 404\<rparr>))
       \<and> (pid \<in> set (map pr_id generateMockProfiles) \<longrightarrow>
            (\<exists>p \<in> set generateMockProfiles. profiles_get client http pid = Inr p \<and> pr_id p = pid))
       \<and> length generateMockProfiles = 4"
proof (intro conjI impI)
  assume "pid \<notin> set (map pr_id generateMockProfiles)"
  then have "find (\<lambda>p. pr_id p = pid) generateMockProfiles = None"
    by (rule find_absent)
  then show "profiles_get client http pid =
      Inl (ApiError \<lparr>code = ''PROFILE_NOT_FOUND'',
                     message = ''Profile '' @ pid @ '' not found'', statusCode = Some 404\<rparr>)"
    using assms by (simp add: profiles_get_def notFound_def)
next
  assume "pid \<in> set (map pr_id generateMockProfiles)"
  from find_present [OF this]
  obtain p where "p \<in> set generateMockProfiles"
    "find (\<lambda>p. pr_id p = pid) generateMockProfiles = Some p" "pr_id p = pid"
    by blast
  then show "\<exists>p \<in> set generateMockProfiles. profiles_get client http pid = Inr p \<and> pr_id p = pid"
    using assms by (auto simp: profiles_get_def)
next
  show "length generateMockProfiles = 4"
    by (simp add: generateMockProfiles_def)
qed

lemma posts_get_in_simulation:
  assumes "sdkMockMode (cfg_bufferSDK (config client))"
  shows "posts_get client now http pid = Inr (generateMockPost now pid None)"
  using assms by (simp add: posts_get_def)

lemma posts_get_live_not_found:
  assumes "\<not> sdkMockMode (cfg_bufferSDK (config client))" and "http 1 = Inr None"
  shows "posts_get client now http pid =
           Inl (ApiError \<lparr>code = ''POST_NOT_FOUND'', message = ''Post '' @ pid @ '' not found'',
                          statusCode = Some 404\<rparr>)"
proof -
  have first: "http (Suc 0) = Inr None"
    using assms(2) by simp
  have run: "retryRequest (retryConfig client)
          (\<lambda>k. case http k of Inl e \<Rightarrow> Inl e
                | Inr None \<Rightarrow> Inl (notFound ''POST_NOT_FOUND'' (''Post '' @ pid @ '' not found''))
                | Inr (Some v) \<Rightarrow> Inr v) 1
        = (Inl (ApiError \<lparr>code = ''POST_NOT_FOUND'', message = ''Post '' @ pid @ '' not found'',
                          statusCode = Some 404\<rparr>), 1, [])"
    by (rule retryRequest_gives_up) (simp_all add: first notFound_def retryableCodes_def)
  show ?thesis
    using assms(1) unfolding posts_get_def live_def run by simp
qed

text \<open>
  Claim C5.  In simulation mode \<open>posts.get\<close> does not honour the not-found contract: for
  the id \<open>non-existent-id\<close>, which no simulated list ever produced, it returns a fabricated
  post instead of failing with \<open>POST_NOT_FOUND\<close>.
\<close>

theorem posts_get_fabricates:
  "posts_get (demoClient True 1700000000000) 1700000000000 (\<lambda>k. Inr None) ''non-existent-id'' =
     Inr \<lparr>bp_id = ''non-existent-id'', bp_profile_id = ''profile_mock_001'',
          bp_status = StatusBuffer,
          bp_text = ''Mock post content for non-existent-id'',
          bp_text_formatted = ''Mock post content for non-existent-id'',
          created_at = 1700000000000, due_at = Some 1700003600000, sent_at = None,
          statistics = Some \<lparr>st_reach = 0, st_clicks = 0, st_retweets = 0, st_favorites = 0,
                              st_mentions = 0, st_comments = 0, st_shares = 0\<rparr>\<rparr>"
  by (simp add: posts_get_def demoClient_def generateMockPost_def or_text_def)

text \<open>
  Claim C10.  In simulation mode \<open>posts.create\<close> ignores the profile id it is given: the
  post it returns has \<open>profile_id = 'profile_mock_001'\<close>, the id \<open>mock_\<close> followed by the
  current timestamp, status \<open>buffer\<close>, every statistics field 0, and the caller's text
  when that text is not empty.
\<close>

theorem posts_create_in_simulation:
  assumes "sdkMockMode (cfg_bufferSDK (config client))"
  shows "\<exists>post. posts_create client now http pid data = Inr post
           \<and> bp_profile_id post = ''profile_mock_001''
           \<and> bp_id post = ''mock_'' @ show_int now
           \<and> bp_status post = StatusBuffer
           \<and> statistics post = Some \<lparr>st_reach = 0, st_clicks = 0, st_retweets = 0,
                                      st_favorites = 0, st_mentions = 0, st_comments = 0,
                                      st_shares = 0\<rparr>
           \<and> (cp_text data \<noteq> [] \<longrightarrow> bp_text post = cp_text data)"
  using assms by (simp add: posts_create_def generateMockPost_def or_text_def)

theorem posts_create_in_simulation_witness:
  "\<exists>post. posts_create (demoClient True 1700000000000) 1700000000000 (\<lambda>k. Inr None)
             ''profile_x_001'' \<lparr>cp_text = ''hello'', scheduled_at = None\<rparr> = Inr post
         \<and> bp_profile_id post = ''profile_mock_001''
         \<and> bp_id post = ''mock_1700000000000''
         \<and> bp_status post = StatusBuffer
         \<and> bp_text post = ''hello''"
  using posts_create_in_simulation [of "demoClient True 1700000000000" 1700000000000
          "\<lambda>k. Inr None" "''profile_x_001''" "\<lparr>cp_text = ''hello'', scheduled_at = None\<rparr>"]
  by (auto simp: demoClient_def show_int_def show_nat.simps digit_char_def)

section \<open>Simulation mode: analytics records\<close>

text \<open>
  Claim C7.  The single-post generator behind \<open>posts.analytics\<close> draws the engagement rate,
  the reach and the impressions independently.  With the draws 0 for the rate, 0.9 for the
  reach and 0 for the impressions it returns a record with engagement rate 0, outside
  \<open>(0, 1]\<close>, and impressions 0 below reach 4500.
\<close>

theorem single_post_analytics_breaks_invariants:
  "posts_analytics (demoClient True 1700000000000)
     \<lparr>clock = 1700000000000, rnd = (\<lambda>k. if k = 6 then 9 / 10 else 0),
      contentTemplates = (\<lambda>p. [])\<rparr> 0 (\<lambda>k. Inr None) ''post_1''
   = Inr \<lparr>postId = ''post_1'', profileId = ''profile_mock_001'', service = Xcom,
          publishedAt = 1699913600000, pa_text = ''Sample post for analytics'',
          metrics = \<lparr>likes = 0, comments = 0, shares = 0, clicks = 0, retweets = Some 0,
                     reactions = None, saves = None\<rparr>,
          engagementRate = 0, reach = 4500, impressions = 0\<rparr>"
  by (simp add: posts_analytics_def demoClient_def generateMockPostAnalytics_def)

lemma platformsToUse_nonempty: "platformsToUse options \<noteq> []"
proof -
  have all: "p \<in> set platforms" for p
    by (cases p) (simp_all add: platforms_def)
  then have "filter (\<lambda>p. p \<in> set platforms) ps = ps" for ps
    by simp
  then show ?thesis
    by (auto simp: platformsToUse_def platforms_def split: option.splits)
qed

lemma slotStep_subset:
  assumes "\<forall>platform k c d. makePost ev fid platform k c d \<in> M"
      and "set (analytics st) \<subseteq> M"
  shows "set (analytics (slotStep ev fid options day dpc i st)) \<subseteq> M"
  using assms by (simp add: slotStep_def Let_def)

lemma slotLoop_subset:
  "\<forall>platform k c d. makePost ev fid platform k c d \<in> M \<Longrightarrow> set (analytics st) \<subseteq> M \<Longrightarrow>
   set (analytics (slotLoop ev fid options totalN day dpc i st)) \<subseteq> M"
proof (induction ev fid options totalN day dpc i st rule: slotLoop.induct)
  case (1 ev fid options totalN day dpc i st)
  show ?case
  proof (cases "i < dpc \<and> postIndex st < totalN")
    case True
    have "set (analytics (slotStep ev fid options day dpc i st)) \<subseteq> M"
      using "1.prems" by (rule slotStep_subset)
    from "1.IH" [OF True "1.prems"(1) this] True show ?thesis
      by (subst slotLoop.simps) simp
  next
    case False
    then show ?thesis using "1.prems" by (subst slotLoop.simps) auto
  qed
qed

lemma dayLoop_subset:
  "\<forall>platform k c d. makePost ev fid platform k c d \<in> M \<Longrightarrow> set (analytics st) \<subseteq> M \<Longrightarrow>
   set (analytics (dayLoop ev fid options totalN timeRangeDays postsPerDay day st)) \<subseteq> M"
proof (induction ev fid options totalN timeRangeDays postsPerDay day st rule: dayLoop.induct)
  case (1 ev fid options totalN timeRangeDays postsPerDay day st)
  show ?case
  proof (cases "day < timeRangeDays")
    case True
    have "set (analytics (slotLoop ev fid options totalN day
                (min postsPerDay (totalN - postIndex st)) 0 st)) \<subseteq> M"
      using "1.prems" by (rule slotLoop_subset)
    from "1.IH" [OF True "1.prems"(1) this] True show ?thesis
      by (subst dayLoop.simps) simp
  next
    case False
    then show ?thesis using "1.prems" by (subst dayLoop.simps) simp
  qed
qed

lemma generateMockAnalytics_subset:
  assumes "\<forall>platform k c d. makePost ev fid platform k c d \<in> M"
  shows "set (generateMockAnalytics ev c fid options) \<subseteq> M"
proof -
  have "set (analytics (generated ev c fid options)) \<subseteq> M"
    unfolding generated_def Let_def
    by (rule dayLoop_subset [OF assms]) simp
  then show ?thesis
    by (simp add: generateMockAnalytics_def)
qed

lemma makePost_shape:
  "(service (makePost ev fid platform k c d) = Xcom \<longrightarrow>
      retweets (metrics (makePost ev fid platform k c d)) \<noteq> None
      \<and> saves (metrics (makePost ev fid platform k c d)) = None)
   \<and> (service (makePost ev fid platform k c d) = Instagram \<longrightarrow>
      saves (metrics (makePost ev fid platform k c d)) \<noteq> None
      \<and> retweets (metrics (makePost ev fid platform k c d)) = None)"
  by (cases platform) (simp_all add: makePost_def generatePlatformMetrics_def Let_def)

text \<open>
  Claim C8.  Every record of the batch generator for platform \<open>x\<close> has a \<open>retweets\<close> field
  and no \<open>saves\<close> field, and every record for \<open>instagram\<close> has a \<open>saves\<close> field and no
  \<open>retweets\<close> field.
\<close>

theorem platform_metric_shape:
  "\<forall>p \<in> set (generateMockAnalytics ev c fid options).
     (service p = Xcom \<longrightarrow> retweets (metrics p) \<noteq> None \<and> saves (metrics p) = None)
   \<and> (service p = Instagram \<longrightarrow> saves (metrics p) \<noteq> None \<and> retweets (metrics p) = None)"
proof -
  let ?M = "{p. (service p = Xcom \<longrightarrow> retweets (metrics p) \<noteq> None \<and> saves (metrics p) = None)
   \<and> (service p = Instagram \<longrightarrow> saves (metrics p) \<noteq> None \<and> retweets (metrics p) = None)}"
  have "\<forall>platform k c d. makePost ev fid platform k c d \<in> ?M"
    using makePost_shape by simp
  from generateMockAnalytics_subset [OF this, of c options] show ?thesis
    by blast
qed

lemma two_platform_day:
  "generateMockAnalytics
     \<lparr>clock = 86400000, rnd = (\<lambda>k. 1 / 2), contentTemplates = (\<lambda>p. [''a'', ''b'', ''c'', ''d''])\<rparr>
     0 ''p''
     \<lparr>o_timeRange = None, o_start = Some 0, o_end = Some 86400000, o_period = None,
      o_platforms = Some [Xcom, Instagram]\<rparr>
   = [\<lparr>postId = ''post_x_0'', profileId = ''profile_x_001'', service = Xcom,
       publishedAt = 86400000, pa_text = ''a'',
       metrics = \<lparr>likes = 118, comments = 29, shares = 0, clicks = 19,
                  retweets = Some 29, reactions = None, saves = None\<rparr>,
       engagementRate = 9 / 200, reach = 4400, impressions = 8800\<rparr>,
      \<lparr>postId = ''post_instagram_1'', profileId = ''profile_instagram_004'',
       service = Instagram, publishedAt = 43200000, pa_text = ''b'',
       metrics = \<lparr>likes = 175, comments = 35, shares = 0, clicks = 4, retweets = None,
                  reactions = None, saves = Some 18\<rparr>,
       engagementRate = 71 / 1000, reach = 3300, impressions = 5940\<rparr>]"
  by (simp add: generateMockAnalytics_def generated_def getTimeRangeDays_def
      calculatePostCount_def or_default_def dayLoop.simps slotLoop.simps slotStep_def Let_def
      platformsToUse_def platforms_def js_trunc_def millisecondsPerDay_def makePost_def
      show_int_def show_nat.simps digit_char_def generatePlatformContent_def
      getPlatformReach_def getPlatformImpressionMultiplier_def generatePlatformMetrics_def
      or_zero_def)

theorem platform_metric_shape_witness:
  "list_all (\<lambda>p. (service p = Xcom \<longrightarrow> retweets (metrics p) \<noteq> None \<and> saves (metrics p) = None)
              \<and> (service p = Instagram \<longrightarrow> saves (metrics p) \<noteq> None \<and> retweets (metrics p) = None))
     (generateMockAnalytics
        \<lparr>clock = 86400000, rnd = (\<lambda>k. 1 / 2), contentTemplates = (\<lambda>p. [''a'', ''b'', ''c'', ''d''])\<rparr>
        0 ''p''
        \<lparr>o_timeRange = None, o_start = Some 0, o_end = Some 86400000, o_period = None,
         o_platforms = Some [Xcom, Instagram]\<rparr>)
   \<and> map service (generateMockAnalytics
        \<lparr>clock = 86400000, rnd = (\<lambda>k. 1 / 2), contentTemplates = (\<lambda>p. [''a'', ''b'', ''c'', ''d''])\<rparr>
        0 ''p''
        \<lparr>o_timeRange = None, o_start = Some 0, o_end = Some 86400000, o_period = None,
         o_platforms = Some [Xcom, Instagram]\<rparr>) = [Xcom, Instagram]"
  using platform_metric_shape [of
        "\<lparr>clock = 86400000, rnd = (\<lambda>k. 1 / 2), contentTemplates = (\<lambda>p. [''a'', ''b'', ''c'', ''d''])\<rparr>"
        0 "''p''"
        "\<lparr>o_timeRange = None, o_start = Some 0, o_end = Some 86400000, o_period = None,
         o_platforms = Some [Xcom, Instagram]\<rparr>"]
  by (simp add: two_platform_day list_all_iff)

section \<open>Simulation mode: the time window\<close>

lemma publishedAt_makePost: "publishedAt (makePost ev fid platform k c d) = d"
  by (simp add: makePost_def Let_def)

lemma slotStep_grows:
  "set (analytics st) \<subseteq> set (analytics (slotStep ev fid options day dpc i st))"
  by (auto simp: slotStep_def Let_def)

lemma slotLoop_grows:
  "set (analytics st) \<subseteq> set (analytics (slotLoop ev fid options totalN day dpc i st))"
proof (induction ev fid options totalN day dpc i st rule: slotLoop.induct)
  case (1 ev fid options totalN day dpc i st)
  show ?case
  proof (cases "i < dpc \<and> postIndex st < totalN")
    case True
    from "1.IH" [OF True] slotStep_grows [of st ev fid options day dpc i] True show ?thesis
      by (subst slotLoop.simps) auto
  next
    case False
    then show ?thesis by (subst slotLoop.simps) auto
  qed
qed

lemma dayLoop_grows:
  "set (analytics st) \<subseteq>
     set (analytics (dayLoop ev fid options totalN timeRangeDays postsPerDay day st))"
proof (induction ev fid options totalN timeRangeDays postsPerDay day st rule: dayLoop.induct)
  case (1 ev fid options totalN timeRangeDays postsPerDay day st)
  show ?case
  proof (cases "day < timeRangeDays")
    case True
    from "1.IH" [OF True]
      slotLoop_grows [of st ev fid options totalN day "min postsPerDay (totalN - postIndex st)" 0]
      True
    show ?thesis
      by (subst dayLoop.simps) auto
  next
    case False
    then show ?thesis by (subst dayLoop.simps) simp
  qed
qed

lemma dayLoop_split:
  "day \<le> d \<Longrightarrow> d \<le> timeRangeDays \<Longrightarrow>
   dayLoop ev fid options totalN timeRangeDays postsPerDay day st =
     dayLoop ev fid options totalN timeRangeDays postsPerDay d
       (dayLoop ev fid options totalN d postsPerDay day st)"
proof (induction ev fid options totalN d postsPerDay day st rule: dayLoop.induct)
  case (1 ev fid options totalN d postsPerDay day st)
  show ?case
  proof (cases "day < d")
    case True
    then have lt: "day < timeRangeDays" using "1.prems" by simp
    have "day + 1 \<le> d" using True by simp
    from "1.IH" [OF True this "1.prems"(2)] True lt show ?thesis
      by (subst dayLoop.simps, subst (3) dayLoop.simps) simp
  next
    case False
    then have "day = d" using "1.prems" by simp
    then show ?thesis by (subst (3) dayLoop.simps) simp
  qed
qed

text \<open>
  Whatever \<open>timeRange\<close> says, options without explicit dates are completed to a window
  of 30 days.
\<close>

lemma completed_window_is_30_days:
  assumes "o_start options = None" "o_end options = None"
  shows "getTimeRangeDays (createCompleteAnalyticsOptions t options) = 30"
proof -
  have "(t - 30 * 86400000) mod 86400000 = (t - (30 * 86400000) mod 86400000) mod 86400000"
    by (rule mod_diff_right_eq [symmetric])
  then have "(t - 2592000000) mod 86400000 = t mod 86400000"
    by simp
  then show ?thesis
    using assms
    by (simp add: getTimeRangeDays_def createCompleteAnalyticsOptions_def isoDate_def
        millisecondsPerDay_def)
qed

lemma live_window_follows_timeRange:
  "buildAnalyticsParams t \<lparr>o_timeRange = Some R7d, o_start = None, o_end = None,
       o_period = None, o_platforms = None\<rparr>
     = (Some (isoDate (t - 7 * millisecondsPerDay)), Some (isoDate t))"
  by (simp add: buildAnalyticsParams_def convertTimeRangeToDateRange_def millisecondsPerDay_def)

lemma seven_day_first_eight_days:
  "1706076000000 \<in> publishedAt ` set (analytics
      (dayLoop noonEnv ''profile_x_001''
        \<lparr>o_timeRange = Some R7d, o_start = Some 1704067200000, o_end = Some 1706659200000,
         o_period = Some Day, o_platforms = None\<rparr> 120 8 4 0
        \<lparr>postIndex = 0, cursor = 0, analytics = []\<rparr>))"
  by (simp add: dayLoop.simps slotLoop.simps slotStep_def Let_def platformsToUse_def
      platforms_def js_trunc_def millisecondsPerDay_def noonEnv_def publishedAt_makePost)

text \<open>
  Claim C2.  A simulated \<open>analytics.posts(profileId, {timeRange: '7d'})\<close> called at
  2024-01-31T12:00:00Z returns a post published at 2024-01-24T06:00:00Z, more than seven
  days before the call: the completed options always carry a 30-day \<open>start\<close> and \<open>end\<close>,
  which \<open>getTimeRangeDays\<close> prefers to \<open>timeRange\<close> (lemma \<open>completed_window_is_30_days\<close>),
  while a live request derives its dates from \<open>timeRange\<close>
  (lemma \<open>live_window_follows_timeRange\<close>).
\<close>

theorem seven_day_request_returns_older_posts:
  "(case analytics_posts (demoClient True 1706702400000) noonEnv 0 (\<lambda>k. Inr None)
           ''profile_x_001''
           \<lparr>o_timeRange = Some R7d, o_start = None, o_end = None, o_period = None,
            o_platforms = None\<rparr> of
      Inr posts \<Rightarrow> 1706076000000 \<in> publishedAt ` set posts
    | Inl e \<Rightarrow> False)
   \<and> 1706076000000 < clock noonEnv - 7 * millisecondsPerDay"
proof -
  let ?o = "\<lparr>o_timeRange = Some R7d, o_start = Some 1704067200000, o_end = Some 1706659200000,
         o_period = Some Day, o_platforms = None\<rparr>"
  have opts: "createCompleteAnalyticsOptions 1706702400000
       \<lparr>o_timeRange = Some R7d, o_start = None, o_end = None, o_period = None,
        o_platforms = None\<rparr> = ?o"
    by (simp add: createCompleteAnalyticsOptions_def isoDate_def millisecondsPerDay_def)
  have days: "getTimeRangeDays ?o = 30"
    by (simp add: getTimeRangeDays_def)
  have count: "calculatePostCount 30 ?o = 120"
    by (simp add: calculatePostCount_def or_default_def)
  have gen: "generated noonEnv 0 ''profile_x_001'' ?o =
      dayLoop noonEnv ''profile_x_001'' ?o 120 30 4 0 \<lparr>postIndex = 0, cursor = 0, analytics = []\<rparr>"
    by (simp add: generated_def days count)
  have "dayLoop noonEnv ''profile_x_001'' ?o 120 30 4 0 \<lparr>postIndex = 0, cursor = 0, analytics = []\<rparr>
      = dayLoop noonEnv ''profile_x_001'' ?o 120 30 4 8
          (dayLoop noonEnv ''profile_x_001'' ?o 120 8 4 0 \<lparr>postIndex = 0, cursor = 0, analytics = []\<rparr>)"
    by (rule dayLoop_split) simp_all
  then have "set (analytics (dayLoop noonEnv ''profile_x_001'' ?o 120 8 4 0
                \<lparr>postIndex = 0, cursor = 0, analytics = []\<rparr>))
      \<subseteq> set (analytics (generated noonEnv 0 ''profile_x_001'' ?o))"
    using dayLoop_grows by (simp add: gen)
  with seven_day_first_eight_days
  have "1706076000000 \<in> publishedAt ` set (analytics (generated noonEnv 0 ''profile_x_001'' ?o))"
    by blast
  then have "1706076000000 \<in> publishedAt ` set (generateMockAnalytics noonEnv 0 ''profile_x_001'' ?o)"
    by (simp add: generateMockAnalytics_def)
  moreover have "clock noonEnv = 1706702400000"
    by (simp add: noonEnv_def)
  ultimately show ?thesis
    by (simp add: analytics_posts_def demoClient_def opts millisecondsPerDay_def)
qed

section \<open>Simulation mode: invariants and the summary\<close>

lemma makePost_rate:
  assumes "0 \<le> rnd ev c" "rnd ev c < 1"
  shows "0 < engagementRate (makePost ev fid platform k c d)
       \<and> engagementRate (makePost ev fid platform k c d) \<le> 1"
  using assms
  by (cases platform) (simp_all add: makePost_def Let_def less_max_iff_disj field_simps)

lemma getPlatformReach_nonneg: "0 \<le> r \<Longrightarrow> 0 \<le> getPlatformReach platform r"
  by (cases platform) (simp_all add: getPlatformReach_def)

lemma multiplier_ge_1: "0 \<le> r \<Longrightarrow> 1 \<le> getPlatformImpressionMultiplier platform r"
  by (cases platform) (simp_all add: getPlatformImpressionMultiplier_def)

lemma makePost_impressions:
  assumes "0 \<le> rnd ev (c + 1)" "0 \<le> rnd ev (c + 2)"
  shows "reach (makePost ev fid platform k c d) \<le> impressions (makePost ev fid platform k c d)"
proof -
  let ?r = "getPlatformReach platform (rnd ev (c + 1))"
  let ?m = "getPlatformImpressionMultiplier platform (rnd ev (c + 2))"
  have "0 \<le> real_of_int ?r" using getPlatformReach_nonneg [OF assms(1)] by simp
  moreover have "1 \<le> ?m" using multiplier_ge_1 [OF assms(2)] .
  ultimately have "real_of_int ?r \<le> real_of_int ?r * ?m"
    by (simp add: mult_le_cancel_left1)
  then have "?r \<le> \<lfloor>real_of_int ?r * ?m\<rfloor>"
    by (simp add: le_floor_iff)
  then show ?thesis
    by (simp add: makePost_def Let_def)
qed

text \<open>
  The batch generator keeps the two invariants that the single-post generator breaks.
\<close>

lemma batch_analytics_invariants:
  assumes "\<forall>k. 0 \<le> rnd ev k \<and> rnd ev k < 1"
  shows "\<forall>p \<in> set (generateMockAnalytics ev c fid options).
           0 < engagementRate p \<and> engagementRate p \<le> 1 \<and> reach p \<le> impressions p"
proof -
  let ?M = "{p. 0 < engagementRate p \<and> engagementRate p \<le> 1 \<and> reach p \<le> impressions p}"
  have "\<forall>platform k c d. makePost ev fid platform k c d \<in> ?M"
    using assms makePost_rate [of ev] makePost_impressions [of ev] by simp
  from generateMockAnalytics_subset [OF this, of c options] show ?thesis
    by blast
qed

lemma foldl_add_sum_list:
  "foldl (\<lambda>sum x. sum + f x) a xs = a + sum_list (map f xs)"
  for a :: "'a :: monoid_add"
  by (induction xs arbitrary: a) (simp_all add: add.assoc)

lemma foldl_plus_sum_list: "foldl (\<lambda>metricSum val. metricSum + val) (0::int) vs = sum_list vs"
  using foldl_add_sum_list [of "\<lambda>x. x" 0 vs] by simp

lemma foldl_best_mem:
  "foldl (\<lambda>best current. if engagementRate current > engagementRate best then current else best)
     b xs \<in> insert b (set xs)"
  by (induction xs arbitrary: b) auto

lemma foldl_best_max:
  "p \<in> insert b (set xs) \<Longrightarrow>
   engagementRate p \<le> engagementRate
     (foldl (\<lambda>best current. if engagementRate current > engagementRate best then current else best)
        b xs)"
proof (induction xs arbitrary: b p)
  case Nil
  then show ?case by simp
next
  case (Cons x xs)
  let ?b' = "if engagementRate x > engagementRate b then x else b"
  have b': "engagementRate b \<le> engagementRate ?b'" "engagementRate x \<le> engagementRate ?b'"
    by auto
  have top: "engagementRate ?b' \<le> engagementRate
     (foldl (\<lambda>best current. if engagementRate current > engagementRate best then current else best)
        ?b' xs)"
    by (rule Cons.IH) simp
  show ?case
  proof (cases "p \<in> set xs")
    case True
    then show ?thesis using Cons.IH [of p ?b'] by simp
  next
    case False
    then have "p = b \<or> p = x" using Cons.prems by auto
    then show ?thesis using b' top by (auto simp del: foldl_Cons simp add: foldl_Cons [of _ b x xs])
  qed
qed

lemma bestPost_is_argmax:
  assumes "posts \<noteq> []"
  shows "\<exists>b \<in> set posts. bestPost posts = Some b
           \<and> (\<forall>p \<in> set posts. engagementRate p \<le> engagementRate b)"
proof -
  from assms obtain x xs where posts: "posts = x # xs" by (cases posts) auto
  let ?b = "foldl (\<lambda>best current. if engagementRate current > engagementRate best then current else best)
              x posts"
  have "?b \<in> insert x (set posts)" by (rule foldl_best_mem)
  then have mem: "?b \<in> set posts" using posts by auto
  have "\<forall>p \<in> set posts. engagementRate p \<le> engagementRate ?b"
    using foldl_best_max [of _ x posts] by blast
  with mem show ?thesis
    by (auto simp: bestPost_def posts)
qed

lemma generated_postId_nonempty:
  "p \<in> set (generateMockAnalytics ev c fid options) \<Longrightarrow> postId p \<noteq> []"
proof -
  have "\<forall>platform k c d. makePost ev fid platform k c d \<in> {p. postId p \<noteq> []}"
    by (simp add: makePost_def Let_def)
  from generateMockAnalytics_subset [OF this, of c options]
  show "p \<in> set (generateMockAnalytics ev c fid options) \<Longrightarrow> postId p \<noteq> []"
    by blast
qed

text \<open>
  Claim C1 as stated does not hold for every options bag: with \<open>start = end\<close> the window
  has no day, no post is generated, and \<open>bestPerformingPost\<close> is a placeholder that is the
  id of no record.
\<close>

theorem summary_of_empty_window:
  "analytics_posts (demoClient True 1706702400000) noonEnv 0 (\<lambda>k. Inr None) ''profile_x_001''
     \<lparr>o_timeRange = None, o_start = Some 1704067200000, o_end = Some 1704067200000,
      o_period = None, o_platforms = None\<rparr> = Inr []
   \<and> analytics_summary (demoClient True 1706702400000) noonEnv 0 (\<lambda>k. Inr None) ''profile_x_001''
     \<lparr>o_timeRange = None, o_start = Some 1704067200000, o_end = Some 1704067200000,
      o_period = None, o_platforms = None\<rparr>
     = Inr \<lparr>su_profileId = ''profile_x_001'', su_timeRange = R30d, totalPosts = 0,
            totalEngagement = 0, averageEngagementRate = 0,
            bestPerformingPost = ''post_profile_x_001_best'',
            topPerformingTime = ''14:00'',
            topMetrics = \<lparr>tm_likes = 0, tm_comments = 0, tm_shares = 0, tm_clicks = 0,
                            tm_reach = 0, tm_impressions = 0\<rparr>,
            platformBreakdown = [], trending = \<lparr>direction = Down, percentage = 15\<rparr>\<rparr>"
  by (simp add: analytics_posts_def analytics_summary_def demoClient_def
      createCompleteAnalyticsOptions_def generateMockAnalytics_def generateMockSummary_def
      generated_def getTimeRangeDays_def calculatePostCount_def or_default_def dayLoop.simps
      bestPost_def or_text_def platformBreakdownOf_def noonEnv_def Let_def)

text \<open>
  Claim C1, amended.  In simulation mode, for the same profile id, options, clock and
  random source, the summary aggregates the list that \<open>analytics.posts\<close> returns:
  \<open>totalPosts\<close> is its length and \<open>totalEngagement\<close> the sum of all values of all metric
  bags; when the list is not empty, \<open>averageEngagementRate\<close> is the arithmetic mean of the
  rates and \<open>bestPerformingPost\<close> the id of a record whose rate is maximal; when it is
  empty, \<open>averageEngagementRate\<close> is 0 and \<open>bestPerformingPost\<close> is
  \<open>post_<profileId>_best\<close>.
\<close>

theorem summary_aggregates_generated_posts:
  assumes "sdkMockMode (cfg_bufferSDK (config client))"
  shows "\<exists>posts s.
           analytics_posts client ev c http pid options = Inr posts
         \<and> analytics_summary client ev c http' pid options = Inr s
         \<and> totalPosts s = length posts
         \<and> totalEngagement s = sum_list (map (\<lambda>p. sum_list (metricValues (metrics p))) posts)
         \<and> (posts \<noteq> [] \<longrightarrow>
              averageEngagementRate s = sum_list (map engagementRate posts) / real (length posts)
              \<and> (\<exists>b \<in> set posts. bestPerformingPost s = postId b
                    \<and> (\<forall>p \<in> set posts. engagementRate p \<le> engagementRate b)))
         \<and> (posts = [] \<longrightarrow>
              averageEngagementRate s = 0
              \<and> bestPerformingPost s = ''post_'' @ pid @ ''_best'')"
proof -
  let ?o = "createCompleteAnalyticsOptions (clock ev) options"
  let ?posts = "generateMockAnalytics ev c pid ?o"
  let ?s = "generateMockSummary ev c pid ?o"
  have p: "analytics_posts client ev c http pid options = Inr ?posts"
    using assms by (simp add: analytics_posts_def)
  have s: "analytics_summary client ev c http' pid options = Inr ?s"
    using assms by (simp add: analytics_summary_def)
  have n: "totalPosts ?s = length ?posts"
    by (simp add: generateMockSummary_def Let_def)
  have e: "totalEngagement ?s = sum_list (map (\<lambda>p. sum_list (metricValues (metrics p))) ?posts)"
    by (simp add: generateMockSummary_def Let_def foldl_plus_sum_list
        foldl_add_sum_list [of "\<lambda>p. sum_list (metricValues (metrics p))" 0])
  have a: "averageEngagementRate ?s = sum_list (map engagementRate ?posts) / real (length ?posts)"
    if "?posts \<noteq> []"
    using that by (simp add: generateMockSummary_def Let_def foldl_add_sum_list [of engagementRate 0])
  have b: "\<exists>b \<in> set ?posts. bestPerformingPost ?s = postId b
              \<and> (\<forall>p \<in> set ?posts. engagementRate p \<le> engagementRate b)"
    if "?posts \<noteq> []"
  proof -
    from bestPost_is_argmax [OF that] obtain b where
      b: "b \<in> set ?posts" "bestPost ?posts = Some b"
         "\<forall>p \<in> set ?posts. engagementRate p \<le> engagementRate b"
      by blast
    from b(1) have "postId b \<noteq> []" by (rule generated_postId_nonempty)
    with b(2) have "bestPerformingPost ?s = postId b"
      by (simp add: generateMockSummary_def Let_def or_text_def)
    with b show ?thesis by blast
  qed
  have z: "averageEngagementRate ?s = 0 \<and> bestPerformingPost ?s = ''post_'' @ pid @ ''_best''"
    if "?posts = []"
    using that by (simp add: generateMockSummary_def Let_def bestPost_def or_text_def)
  from p s n e a b z show ?thesis
    by blast
qed

lemma one_day_two_platforms:
  "analytics_posts (demoClient True 1706702400000) noonEnv 0 (\<lambda>k. Inr None) ''profile_x_001''
     \<lparr>o_timeRange = None, o_start = Some 1706659200000, o_end = Some 1706745600000,
      o_period = None, o_platforms = Some [Xcom, Instagram]\<rparr>
   = Inr [\<lparr>postId = ''post_x_0'', profileId = ''profile_x_001'', service = Xcom,
           publishedAt = 1706702400000, pa_text = ''t0'',
           metrics = \<lparr>likes = 118, comments = 29, shares = 0, clicks = 19,
                      retweets = Some 29, reactions = None, saves = None\<rparr>,
           engagementRate = 9 / 200, reach = 4400, impressions = 8800\<rparr>,
          \<lparr>postId = ''post_instagram_1'', profileId = ''profile_instagram_004'',
           service = Instagram, publishedAt = 1706659200000, pa_text = ''t1'',
           metrics = \<lparr>likes = 175, comments = 35, shares = 0, clicks = 4, retweets = None,
                      reactions = None, saves = Some 18\<rparr>,
           engagementRate = 71 / 1000, reach = 3300, impressions = 5940\<rparr>]"
  by (simp add: analytics_posts_def demoClient_def createCompleteAnalyticsOptions_def
      generateMockAnalytics_def generated_def getTimeRangeDays_def
      calculatePostCount_def or_default_def dayLoop.simps slotLoop.simps slotStep_def Let_def
      platformsToUse_def platforms_def js_trunc_def millisecondsPerDay_def makePost_def
      show_int_def show_nat.simps digit_char_def generatePlatformContent_def
      getPlatformReach_def getPlatformImpressionMultiplier_def generatePlatformMetrics_def
      or_zero_def noonEnv_def)

theorem summary_aggregates_generated_posts_witness:
  "\<exists>posts s.
      analytics_posts (demoClient True 1706702400000) noonEnv 0 (\<lambda>k. Inr None) ''profile_x_001''
        \<lparr>o_timeRange = None, o_start = Some 1706659200000, o_end = Some 1706745600000,
         o_period = None, o_platforms = Some [Xcom, Instagram]\<rparr> = Inr posts
    \<and> analytics_summary (demoClient True 1706702400000) noonEnv 0 (\<lambda>k. Inr None) ''profile_x_001''
        \<lparr>o_timeRange = None, o_start = Some 1706659200000, o_end = Some 1706745600000,
         o_period = None, o_platforms = Some [Xcom, Instagram]\<rparr> = Inr s
    \<and> length posts = 2
    \<and> totalPosts s = 2
    \<and> totalEngagement s = 427
    \<and> averageEngagementRate s = 29 / 500
    \<and> bestPerformingPost s = ''post_instagram_1''"
proof -
  have mock: "sdkMockMode (cfg_bufferSDK (config (demoClient True 1706702400000)))"
    by (simp add: demoClient_def)
  from summary_aggregates_generated_posts [OF mock, of noonEnv 0 "\<lambda>k. Inr None" "''profile_x_001''"
      "\<lparr>o_timeRange = None, o_start = Some 1706659200000, o_end = Some 1706745600000,
         o_period = None, o_platforms = Some [Xcom, Instagram]\<rparr>" "\<lambda>k. Inr None"]
  obtain posts s where
    p: "analytics_posts (demoClient True 1706702400000) noonEnv 0 (\<lambda>k. Inr None) ''profile_x_001''
        \<lparr>o_timeRange = None, o_start = Some 1706659200000, o_end = Some 1706745600000,
         o_period = None, o_platforms = Some [Xcom, Instagram]\<rparr> = Inr posts"
    and s: "analytics_summary (demoClient True 1706702400000) noonEnv 0 (\<lambda>k. Inr None) ''profile_x_001''
        \<lparr>o_timeRange = None, o_start = Some 1706659200000, o_end = Some 1706745600000,
         o_period = None, o_platforms = Some [Xcom, Instagram]\<rparr> = Inr s"
    and n: "totalPosts s = length posts"
    and e: "totalEngagement s = sum_list (map (\<lambda>p. sum_list (metricValues (metrics p))) posts)"
    and a: "posts \<noteq> [] \<longrightarrow>
              averageEngagementRate s = sum_list (map engagementRate posts) / real (length posts)
              \<and> (\<exists>b \<in> set posts. bestPerformingPost s = postId b
                    \<and> (\<forall>p \<in> set posts. engagementRate p \<le> engagementRate b))"
    by blast
  from p have posts: "posts =
         [\<lparr>postId = ''post_x_0'', profileId = ''profile_x_001'', service = Xcom,
           publishedAt = 1706702400000, pa_text = ''t0'',
           metrics = \<lparr>likes = 118, comments = 29, shares = 0, clicks = 19,
                      retweets = Some 29, reactions = None, saves = None\<rparr>,
           engagementRate = 9 / 200, reach = 4400, impressions = 8800\<rparr>,
          \<lparr>postId = ''post_instagram_1'', profileId = ''profile_instagram_004'',
           service = Instagram, publishedAt = 1706659200000, pa_text = ''t1'',
           metrics = \<lparr>likes = 175, comments = 35, shares = 0, clicks = 4, retweets = None,
                      reactions = None, saves = Some 18\<rparr>,
           engagementRate = 71 / 1000, reach = 3300, impressions = 5940\<rparr>]"
    by (simp add: one_day_two_platforms)
  have "length posts = 2" by (simp add: posts)
  moreover have "totalPosts s = 2" using n by (simp add: posts)
  moreover have "totalEngagement s = 427" using e by (simp add: posts metricValues_def)
  moreover have "averageEngagementRate s = 29 / 500" using a by (simp add: posts)
  moreover have "bestPerformingPost s = ''post_instagram_1''" using a by (auto simp: posts)
  ultimately show ?thesis using p s by blast
qed

end
